theory Spec2Isabelle
  imports Complex_Main
begin

section \<open>Python values\<close>

text \<open>
  The module \<^verbatim>\<open>kerastuner/engine/cloudservice.py\<close> handles JSON-like payloads:
  \<^verbatim>\<open>None\<close>, booleans, numbers, strings, lists and dictionaries with string keys.
  A dictionary keeps its insertion order, so it is an association list; a well-formed
  one has distinct keys. A float is represented by the real number it denotes.
  \<open>pyval\<close> is such a value as a whole, by content: what a JSON body says, or what a
  structure of objects in the store amounts to.
\<close>

datatype pyval =
    PNone
  | PBool bool
  | PInt int
  | PFloat real
  | PStr string
  | PList "pyval list"
  | PDict "(string \<times> pyval) list"

type_synonym pydict = "(string \<times> pyval) list"

text \<open>The exceptions that can travel through the module.\<close>

datatype py_error =
    KeyError string
  | TypeError
  | JSONDecodeError
  | RequestException string
  | RecursionError

text \<open>
  The outcome of running a statement: control falls through to the next statement, the
  enclosing function returns a value, or an exception is raised. \<open>seq_stmt\<close> is the
  sequencing of two statements: the second one runs only when the first falls through.
\<close>

datatype 'a flow = Fallthrough | Return 'a | Raise py_error

definition seq_stmt :: "'a flow \<Rightarrow> 'a flow \<Rightarrow> 'a flow" where
  "seq_stmt s k = (case s of Fallthrough \<Rightarrow> k | Return v \<Rightarrow> Return v | Raise e \<Rightarrow> Raise e)"

text \<open>A function body that falls off its end returns \<^verbatim>\<open>None\<close>.\<close>

definition call_result :: "pyval flow \<Rightarrow> py_error + pyval" where
  "call_result f = (case f of Fallthrough \<Rightarrow> Inr PNone | Return v \<Rightarrow> Inr v | Raise e \<Rightarrow> Inl e)"

section \<open>Module constants\<close>

definition DISABLE :: string where "DISABLE = ''disable''"
definition AUTH_ERROR :: string where "AUTH_ERROR = ''authentication error''"
definition CONNECT_ERROR :: string where "CONNECT_ERROR = ''connection error''"
definition UPLOAD_ERROR :: string where "UPLOAD_ERROR = ''upload error''"
definition OK :: string where "OK = ''ok''"
definition ERROR :: string where "ERROR = ''error''"

section \<open>String helpers\<close>

text \<open>
  \<^verbatim>\<open>s.rstrip(chars)\<close> removes from the end of \<open>s\<close> every character that occurs in
  \<open>chars\<close>, and stops at the first character that does not.
\<close>

definition rstrip :: "string \<Rightarrow> string \<Rightarrow> string" where
  "rstrip chars s = rev (dropWhile (\<lambda>c. c \<in> set chars) (rev s))"

text \<open>\<^verbatim>\<open>sep.join(parts)\<close>\<close>

fun str_join :: "string \<Rightarrow> string list \<Rightarrow> string" where
  "str_join sep [] = []"
| "str_join sep [p] = p"
| "str_join sep (p # q # ps) = p @ sep @ str_join sep (q # ps)"

text \<open>
  \<^verbatim>\<open>CloudService._url_join(self, *parts)\<close>:
  \<^verbatim>\<open>return "/".join(map(lambda fragment: fragment.rstrip('/'), parts))\<close>.
  (A leading underscore is not available in a constant's name.)
\<close>

definition url_join :: "string list \<Rightarrow> string" where
  "url_join parts = str_join ''/'' (map (\<lambda>fragment. rstrip ''/'' fragment) parts)"

section \<open>Objects in the store\<close>

text \<open>
  Dictionaries and lists are mutable objects that a caller and a callee may share, at any
  depth of a payload. They live in a store: a list of objects, a reference being an index
  into it, and creating an object appends it. What a variable, a dictionary entry or a
  list element holds is an atom or a reference to an object; a reference that is held
  somewhere is the index of an object of the store (Python has no dangling reference).
\<close>

type_synonym ref = nat

datatype hval = HNone | HBool bool | HInt int | HFloat real | HStr string | HRef ref

datatype hobj = HDict "(string \<times> hval) list" | HList "hval list"

type_synonym store = "hobj list"

definition alloc :: "hobj \<Rightarrow> store \<Rightarrow> ref \<times> store" where
  "alloc obj h = (length h, h @ [obj])"

text \<open>
  A \<^verbatim>\<open>for\<close> loop whose body may raise: the state is threaded through the elements
  and the first exception ends the loop.
\<close>

fun iterate :: "('a \<Rightarrow> 's \<Rightarrow> py_error + 's) \<Rightarrow> 'a list \<Rightarrow> 's \<Rightarrow> py_error + 's" where
  "iterate f [] s = Inr s"
| "iterate f (x # xs) s = (case f x s of Inl e \<Rightarrow> Inl e | Inr s' \<Rightarrow> iterate f xs s')"

text \<open>
  \<^verbatim>\<open>y[k] = v\<close> on a dictionary replaces the entry of \<open>k\<close> or adds one at the end;
  \<^verbatim>\<open>y.append(v)\<close> on a list adds an element at the end. Both act on the object that
  \<open>y\<close> refers to. (\<open>deepcopy\<close> applies each to the object it has just created, which
  is of the right kind.)
\<close>

fun setitem :: "string \<Rightarrow> hval \<Rightarrow> (string \<times> hval) list \<Rightarrow> (string \<times> hval) list" where
  "setitem k v [] = [(k, v)]"
| "setitem k v (kv # kvs) = (if fst kv = k then (k, v) # kvs else kv # setitem k v kvs)"

definition obj_setitem :: "string \<Rightarrow> hval \<Rightarrow> hobj \<Rightarrow> hobj" where
  "obj_setitem k v obj = (case obj of HDict kvs \<Rightarrow> HDict (setitem k v kvs) | HList xs \<Rightarrow> HList xs)"

definition obj_append :: "hval \<Rightarrow> hobj \<Rightarrow> hobj" where
  "obj_append v obj = (case obj of HList xs \<Rightarrow> HList (xs @ [v]) | HDict kvs \<Rightarrow> HDict kvs)"

definition dict_setitem :: "ref \<Rightarrow> string \<Rightarrow> hval \<Rightarrow> store \<Rightarrow> store" where
  "dict_setitem y k v h = h[y := obj_setitem k v (h ! y)]"

definition list_append :: "ref \<Rightarrow> hval \<Rightarrow> store \<Rightarrow> store" where
  "list_append y v h = h[y := obj_append v (h ! y)]"

section \<open>Payload sanitising\<close>

text \<open>
  \<^verbatim>\<open>copy.deepcopy(x, memo)\<close>, as the standard library has it:
  \<^verbatim>\<open>
  def deepcopy(x, memo):
      y = memo.get(id(x))
      if y is not None: return y          # already copied: the same copy again
      if x is atomic: return x
      if x is a dict:
          y = {}; memo[id(x)] = y
          for key, value in x.items(): y[key] = deepcopy(value, memo)
          return y
      if x is a list:
          y = []; memo[id(x)] = y
          for a in x: y.append(deepcopy(a, memo))
          return y
  \<close>
  The memo is an association list from the reference of an object to the reference of its
  copy. Every nested container costs one more nested call, and the interpreter allows a
  bounded number of them: the first argument is the number of nested calls of
  \<open>deepcopy\<close> that the recursion limit leaves room for, and a call that has none left
  raises \<open>RecursionError\<close>.
\<close>

type_synonym memo = "(ref \<times> ref) list"

fun deepcopy :: "nat \<Rightarrow> hval \<Rightarrow> memo \<times> store \<Rightarrow> py_error + (hval \<times> memo \<times> store)" where
  "deepcopy 0 x ms = Inl RecursionError"
| "deepcopy (Suc n) (HRef r) (m, h) =
     (case map_of m r of
        Some y \<Rightarrow> Inr (HRef y, m, h)
      | None \<Rightarrow>
          (let y = length h in
           case h ! r of
             HDict kvs \<Rightarrow>
               (case iterate
                       (\<lambda>kv (m1, h1).
                          case deepcopy n (snd kv) (m1, h1) of
                            Inl e \<Rightarrow> Inl e
                          | Inr (v, m2, h2) \<Rightarrow> Inr (m2, dict_setitem y (fst kv) v h2))
                       kvs ((r, y) # m, h @ [HDict []]) of
                  Inl e \<Rightarrow> Inl e
                | Inr (m', h') \<Rightarrow> Inr (HRef y, m', h'))
           | HList xs \<Rightarrow>
               (case iterate
                       (\<lambda>x (m1, h1).
                          case deepcopy n x (m1, h1) of
                            Inl e \<Rightarrow> Inl e
                          | Inr (v, m2, h2) \<Rightarrow> Inr (m2, list_append y v h2))
                       xs ((r, y) # m, h @ [HList []]) of
                  Inl e \<Rightarrow> Inl e
                | Inr (m', h') \<Rightarrow> Inr (HRef y, m', h'))))"
| "deepcopy (Suc n) x ms = Inr (x, ms)"

text \<open>
  \<^verbatim>\<open>key in info\<close> (for a list: is the string one of the elements) and
  \<^verbatim>\<open>del info[key]\<close> (a list has no string index) on the object a reference points
  to.
\<close>

definition dict_contains :: "hobj \<Rightarrow> string \<Rightarrow> bool" where
  "dict_contains obj key =
     (case obj of HDict kvs \<Rightarrow> key \<in> set (map fst kvs) | HList xs \<Rightarrow> HStr key \<in> set xs)"

definition dict_del :: "string \<Rightarrow> (string \<times> hval) list \<Rightarrow> (string \<times> hval) list" where
  "dict_del key kvs = filter (\<lambda>kv. fst kv \<noteq> key) kvs"

definition del_item :: "ref \<Rightarrow> string \<Rightarrow> store \<Rightarrow> py_error + store" where
  "del_item r key h =
     (case h ! r of
        HDict kvs \<Rightarrow> Inr (h[r := HDict (dict_del key kvs)])
      | HList xs \<Rightarrow> Inl TypeError)"

text \<open>
  \<^verbatim>\<open>
  def _normalize_data_to_send(info):
      info = copy.deepcopy(info)
      for key in ['model_config', 'epoch_history']:
          if key in info:
              del info[key]
      return info
  \<close>
  The loop body, then the function: given the room for nested calls, the reference held
  by \<open>info\<close> and the store, it returns the reference of the new object and the store it
  leaves behind, or raises. (The copy of a reference is a reference.)
\<close>

definition normalize_step :: "ref \<Rightarrow> string \<Rightarrow> store \<Rightarrow> py_error + store" where
  "normalize_step info key h = (if dict_contains (h ! info) key then del_item info key h else Inr h)"

definition normalize_data_to_send :: "nat \<Rightarrow> ref \<Rightarrow> store \<Rightarrow> py_error + (ref \<times> store)" where
  "normalize_data_to_send budget info h =
     (case deepcopy budget (HRef info) ([], h) of
        Inl e \<Rightarrow> Inl e
      | Inr (v, m, h') \<Rightarrow>
          (case v of
             HRef info' \<Rightarrow>
               (case iterate (normalize_step info') [''model_config'', ''epoch_history''] h' of
                  Inl e \<Rightarrow> Inl e
                | Inr h'' \<Rightarrow> Inr (info', h''))
           | _ \<Rightarrow> Inl TypeError))"

section \<open>The transport\<close>

text \<open>
  \<^verbatim>\<open>requests.post(url, headers=..., json=...)\<close> is the one external capability. A
  request is what the module hands to it (the JSON body as the reference of the dictionary
  to encode, which the transport reads in the store); a response is what the module reads
  back: the flag \<^verbatim>\<open>response.ok\<close>, the body \<^verbatim>\<open>response.text\<close>, and the result
  of \<^verbatim>\<open>response.json()\<close>, which is the parsed body or an exception
  (\<open>JSONDecodeError\<close> when the body is not JSON). The transport itself is a parameter
  of the model; it answers with a response or raises. Every request handed to it is
  appended to the log \<open>net\<close> of the process state.
\<close>

record request =
  req_url :: string
  req_headers :: "(string \<times> string option) list"
  req_json :: "hval option"

record response =
  resp_ok :: bool
  resp_text :: string
  resp_json :: "py_error + pyval"

type_synonym transport = "store \<Rightarrow> request \<Rightarrow> py_error + response"

text \<open>\<^verbatim>\<open>obj[key]\<close> with a string key: only a dictionary that holds the key answers.\<close>

fun subscript :: "pyval \<Rightarrow> string \<Rightarrow> py_error + pyval" where
  "subscript (PDict kvs) key = (case map_of kvs key of None \<Rightarrow> Inl (KeyError key) | Some v \<Rightarrow> Inr v)"
| "subscript _ key = Inl TypeError"

section \<open>The client object and the process state\<close>

text \<open>
  A call handed to \<^verbatim>\<open>self.executor.submit(send_to_backend, url, api_key, info_type, info)\<close>.
  The executor is the queue of the calls submitted so far and not yet run by a worker.
\<close>

record task =
  task_url :: string
  task_api_key :: "string option"
  task_info_type :: string
  task_info :: ref

text \<open>
  A number keeps its Python type, which a reader of \<open>get_config\<close> sees: \<open>-1\<close> is an
  \<^verbatim>\<open>int\<close>, a reading of \<^verbatim>\<open>time.time()\<close> is a \<^verbatim>\<open>float\<close>. In arithmetic and
  comparisons it stands for the real number it denotes. (\<open>log_interval\<close> is only ever
  compared, so the record holds the number it denotes.)
\<close>

datatype pynum = NInt int | NFloat real

primrec num_real :: "pynum \<Rightarrow> real" where
  "num_real (NInt i) = real_of_int i"
| "num_real (NFloat x) = x"

primrec num_pyval :: "pynum \<Rightarrow> pyval" where
  "num_pyval (NInt i) = PInt i"
| "num_pyval (NFloat x) = PFloat x"

record CloudService =
  enabled :: bool
  status :: pyval
  base_url :: string
  api_key :: "string option"
  log_interval :: real
  last_update :: pynum
  executor :: "task list"

text \<open>\<^verbatim>\<open>CloudService.__init__\<close>\<close>

definition init_CloudService :: CloudService where
  "init_CloudService =
     \<lparr> enabled = False,
       status = PStr ''disable'',
       base_url = ''https://us-central1-kerastuner-prod.cloudfunctions.net/api/'',
       api_key = None,
       log_interval = 5,
       last_update = NInt (- 1),
       executor = [] \<rparr>"

text \<open>
  The state of the calling process: the client object, the store of payload objects, the
  log of the requests handed to the transport, and the room the interpreter's recursion
  limit leaves for nested calls of \<open>deepcopy\<close>.
\<close>

record world =
  cloud :: CloudService
  heap :: store
  net :: "request list"
  recursion_budget :: nat

section \<open>Transmitter\<close>

text \<open>
  Lines 70 to 86 of the source, statement by statement, for a response in hand. The
  \<^verbatim>\<open>try\<close> catches \<open>JSONDecodeError\<close> only; \<^verbatim>\<open>return ERROR\<close> follows the
  \<^verbatim>\<open>if\<close>/\<^verbatim>\<open>else\<close> whose branches both return. The calls of \<^verbatim>\<open>warning\<close> only
  print and are left out.
  \<^verbatim>\<open>
      if not response.ok:
          try:
              response_json = response.json()
          except json.decoder.JSONDecodeError:
              return CONNECT_ERROR
          if response_json['status'] == 'Unauthorized':
              return AUTH_ERROR
          else:
              return UPLOAD_ERROR
          return ERROR
      else:
          return OK
  \<close>
\<close>

definition classify_status :: "pyval \<Rightarrow> pyval flow" where
  "classify_status response_json =
     (case subscript response_json ''status'' of
        Inl e \<Rightarrow> Raise e
      | Inr st \<Rightarrow> if st = PStr ''Unauthorized'' then Return (PStr AUTH_ERROR)
                  else Return (PStr UPLOAD_ERROR))"

text \<open>
  The statements under \<^verbatim>\<open>if not response.ok:\<close> that come before
  \<^verbatim>\<open>return ERROR\<close>: the \<^verbatim>\<open>try\<close> and the \<^verbatim>\<open>if\<close>/\<^verbatim>\<open>else\<close>.
\<close>

definition failure_block :: "response \<Rightarrow> pyval flow" where
  "failure_block response =
     (case resp_json response of
        Inl e \<Rightarrow> if e = JSONDecodeError then Return (PStr CONNECT_ERROR) else Raise e
      | Inr response_json \<Rightarrow> classify_status response_json)"

definition classify_response :: "response \<Rightarrow> pyval flow" where
  "classify_response response =
     (if \<not> resp_ok response then
        seq_stmt (failure_block response) (Return (PStr ERROR))
      else Return (PStr OK))"

text \<open>
  \<^verbatim>\<open>
  def send_to_backend(url, api_key, info_type, info):
      response = requests.post(
          url,
          headers={'X-AUTH': api_key},
          json={'type': info_type, 'data': _normalize_data_to_send(info)})
      ...
  \<close>
\<close>

definition send_to_backend ::
    "transport \<Rightarrow> string \<Rightarrow> string option \<Rightarrow> string \<Rightarrow> ref \<Rightarrow> world \<Rightarrow> (py_error + pyval) \<times> world" where
  "send_to_backend post url key info_type info w =
     (case normalize_data_to_send (recursion_budget w) info (heap w) of
        Inl e \<Rightarrow> (Inl e, w)
      | Inr (data, h') \<Rightarrow>
          let (body, h'') = alloc (HDict [(''type'', HStr info_type), (''data'', HRef data)]) h';
              req = \<lparr> req_url = url,
                      req_headers = [(''X-AUTH'', key)],
                      req_json = Some (HRef body) \<rparr>;
              w' = w\<lparr> heap := h'', net := net w @ [req] \<rparr>
          in case post h'' req of
               Inl e \<Rightarrow> (Inl e, w')
             | Inr response \<Rightarrow> (call_result (classify_response response), w'))"

section \<open>CloudService methods\<close>

text \<open>
  \<^verbatim>\<open>
  def _check_access(self):
      if self.api_key == 'test_key_true':
          return True
      if self.api_key == 'test_key_false':
          return False
      url = self._url_join(self.base_url, 'v1/check-access')
      response = requests.post(url, headers={'X-AUTH': self.api_key})
      return response.ok
  \<close>
\<close>

definition check_access :: "transport \<Rightarrow> world \<Rightarrow> (py_error + bool) \<times> world" where
  "check_access post w =
     (if api_key (cloud w) = Some ''test_key_true'' then (Inr True, w)
      else if api_key (cloud w) = Some ''test_key_false'' then (Inr False, w)
      else
        let url = url_join [base_url (cloud w), ''v1/check-access''];
            req = \<lparr> req_url = url, req_headers = [(''X-AUTH'', api_key (cloud w))], req_json = None \<rparr>;
            w' = w\<lparr> net := net w @ [req] \<rparr>
        in case post (heap w) req of
             Inl e \<Rightarrow> (Inl e, w')
           | Inr response \<Rightarrow> (Inr (resp_ok response), w'))"

text \<open>
  \<^verbatim>\<open>
  def enable(self, api_key, url=None):
      self.api_key = api_key
      if url:
          self.base_url = url
      if self._check_access():
          self.status = OK
          self.enabled = True
      else:
          self.status = AUTH_ERROR
          self.enabled = False
  \<close>
  \<^verbatim>\<open>if url\<close> holds for a string that is not empty.
\<close>

definition enable :: "transport \<Rightarrow> string \<Rightarrow> string option \<Rightarrow> world \<Rightarrow> (py_error + pyval) \<times> world" where
  "enable post key url w =
     (let w1 = w\<lparr> cloud := (cloud w)\<lparr> api_key := Some key \<rparr> \<rparr>;
          w2 = (case url of
                  None \<Rightarrow> w1
                | Some u \<Rightarrow> if u \<noteq> [] then w1\<lparr> cloud := (cloud w1)\<lparr> base_url := u \<rparr> \<rparr> else w1);
          (r, w3) = check_access post w2
      in case r of
           Inl e \<Rightarrow> (Inl e, w3)
         | Inr access \<Rightarrow>
             if access
             then (Inr PNone, w3\<lparr> cloud := (cloud w3)\<lparr> status := PStr OK, enabled := True \<rparr> \<rparr>)
             else (Inr PNone, w3\<lparr> cloud := (cloud w3)\<lparr> status := PStr AUTH_ERROR, enabled := False \<rparr> \<rparr>))"

text \<open>
  \<^verbatim>\<open>
  def _send_nonblocking(self, info_type, info):
      if not self.enabled:
          return
      url = self._url_join(self.base_url, 'v1/update')
      self.executor.submit(send_to_backend, url, self.api_key, info_type, info)
  \<close>
  Both paths return \<^verbatim>\<open>None\<close>.
\<close>

definition send_nonblocking :: "string \<Rightarrow> ref \<Rightarrow> world \<Rightarrow> pyval \<times> world" where
  "send_nonblocking info_type info w =
     (if \<not> enabled (cloud w) then (PNone, w)
      else
        let url = url_join [base_url (cloud w), ''v1/update''];
            t = \<lparr> task_url = url, task_api_key = api_key (cloud w),
                  task_info_type = info_type, task_info = info \<rparr>
        in (PNone, w\<lparr> cloud := (cloud w)\<lparr> executor := executor (cloud w) @ [t] \<rparr> \<rparr>))"

text \<open>
  \<^verbatim>\<open>
  def _send_blocking(self, info_type, info):
      if not self.enabled:
          return 'disabled'
      url = self._url_join(self.base_url, 'v1/update')
      self.status = send_to_backend(url, self.api_key, info_type, info)
  \<close>
\<close>

definition send_blocking :: "transport \<Rightarrow> string \<Rightarrow> ref \<Rightarrow> world \<Rightarrow> (py_error + pyval) \<times> world" where
  "send_blocking post info_type info w =
     (if \<not> enabled (cloud w) then (Inr (PStr ''disabled''), w)
      else
        let url = url_join [base_url (cloud w), ''v1/update''];
            (r, w') = send_to_backend post url (api_key (cloud w)) info_type info w
        in case r of
             Inl e \<Rightarrow> (Inl e, w')
           | Inr v \<Rightarrow> (Inr PNone, w'\<lparr> cloud := (cloud w')\<lparr> status := v \<rparr> \<rparr>))"

text \<open>
  \<^verbatim>\<open>
  def send_status(self, status):
      ts = time.time()
      if ts - self.last_update > self.log_interval:
          self._send_nonblocking("status", status)
          self.last_update = ts
  \<close>
  The reading \<open>ts\<close> of the clock, a \<^verbatim>\<open>float\<close>, is an argument of the model.
\<close>

definition send_status :: "real \<Rightarrow> ref \<Rightarrow> world \<Rightarrow> pyval \<times> world" where
  "send_status ts st w =
     (if ts - num_real (last_update (cloud w)) > log_interval (cloud w) then
        let (_, w1) = send_nonblocking ''status'' st w
        in (PNone, w1\<lparr> cloud := (cloud w1)\<lparr> last_update := NFloat ts \<rparr> \<rparr>)
      else (PNone, w))"

text \<open>
  \<^verbatim>\<open>
  def send_results(self, results):
      self._send_nonblocking("results", results)
  \<close>
\<close>

definition send_results :: "ref \<Rightarrow> world \<Rightarrow> pyval \<times> world" where
  "send_results results w = (let (_, w1) = send_nonblocking ''results'' results w in (PNone, w1))"

text \<open>
  \<^verbatim>\<open>
  def get_config(self):
      # !DO NOT record API key
      res = {"enabled": self.enabled, "status": self.status, "last_update": self.last_update}
      return res
  \<close>
\<close>

definition get_config :: "CloudService \<Rightarrow> pydict" where
  "get_config self =
     [(''enabled'', PBool (enabled self)),
      (''status'', status self),
      (''last_update'', num_pyval (last_update self))]"

text \<open>
  The call that \<open>send_status\<close> submits for the payload \<open>st\<close> when the client is in the
  state of \<open>w\<close>.
\<close>

definition status_task :: "world \<Rightarrow> ref \<Rightarrow> task" where
  "status_task w st =
     \<lparr> task_url = url_join [base_url (cloud w), ''v1/update''],
       task_api_key = api_key (cloud w),
       task_info_type = ''status'', task_info = st \<rparr>"

section \<open>What a reference amounts to\<close>












section \<open>Example inputs\<close>

text \<open>
  A store that holds one payload, at reference 0, with nested dictionaries and lists, and
  the nested value it amounts to.
\<close>

definition example_store :: store where
  "example_store =
     [HDict [(''model_config'', HRef 1), (''score'', HFloat 0.9), (''epoch_history'', HRef 2),
             (''hyperparameters'', HRef 3)],
      HDict [(''layers'', HInt 2)],
      HList [HFloat 0.5],
      HDict [(''units'', HInt 64), (''tags'', HRef 4)],
      HList [HStr ''a'', HNone]]"




text \<open>A transport that answers every request with the same response, and one that is down.\<close>

definition always :: "response \<Rightarrow> transport" where
  "always response = (\<lambda>h req. Inr response)"

definition unreachable :: transport where
  "unreachable = (\<lambda>h req. Inl (RequestException ''connection refused''))"

text \<open>Responses: a success, and failures with the bodies named.\<close>

definition quoted :: "string \<Rightarrow> string" where
  "quoted s = [CHR 0x22] @ s @ [CHR 0x22]"

definition resp_success :: response where
  "resp_success = \<lparr> resp_ok = True, resp_text = ''{}'', resp_json = Inr (PDict []) \<rparr>"

definition resp_html :: response where
  "resp_html = \<lparr> resp_ok = False, resp_text = ''<html>502</html>'', resp_json = Inl JSONDecodeError \<rparr>"

definition resp_unauthorized :: response where
  "resp_unauthorized =
     \<lparr> resp_ok = False,
       resp_text = ''{'' @ quoted ''status'' @ '': '' @ quoted ''Unauthorized'' @ ''}'',
       resp_json = Inr (PDict [(''status'', PStr ''Unauthorized'')]) \<rparr>"

definition resp_rejected :: response where
  "resp_rejected =
     \<lparr> resp_ok = False,
       resp_text = ''{'' @ quoted ''status'' @ '': '' @ quoted ''Too large'' @ ''}'',
       resp_json = Inr (PDict [(''status'', PStr ''Too large'')]) \<rparr>"

definition resp_empty_object :: response where
  "resp_empty_object = \<lparr> resp_ok = False, resp_text = ''{}'', resp_json = Inr (PDict []) \<rparr>"

definition resp_message_only :: response where
  "resp_message_only =
     \<lparr> resp_ok = False,
       resp_text = ''{'' @ quoted ''message'' @ '': '' @ quoted ''Internal Server Error'' @ ''}'',
       resp_json = Inr (PDict [(''message'', PStr ''Internal Server Error'')]) \<rparr>"

text \<open>
  A process that has just built its client and holds the example payload, with room for
  1000 nested calls, and the same process after \<^verbatim>\<open>enable('test_key_true')\<close>.
\<close>

definition fresh_world :: world where
  "fresh_world =
     \<lparr> cloud = init_CloudService, heap = example_store, net = [], recursion_budget = 1000 \<rparr>"

definition enabled_world :: world where
  "enabled_world = snd (enable unreachable ''test_key_true'' None fresh_world)"

section \<open>Properties of the URL joiner\<close>

lemma rstrip_snoc_in: "c \<in> set chars \<Longrightarrow> rstrip chars (s @ [c]) = rstrip chars s"
  by (simp add: rstrip_def)

lemma rstrip_no_trailing:
  assumes "rstrip chars s = p @ [c]"
  shows "c \<notin> set chars"
proof -
  let ?P = "\<lambda>c. c \<in> set chars"
  from assms have "rev (rev (dropWhile ?P (rev s))) = rev (p @ [c])"
    unfolding rstrip_def by (rule arg_cong)
  then have "dropWhile ?P (rev s) = c # rev p"
    by simp
  then show ?thesis
    using hd_dropWhile [of ?P "rev s"] by simp
qed

lemma rstrip_keep: "s \<noteq> [] \<Longrightarrow> last s \<notin> set chars \<Longrightarrow> rstrip chars s = s"
  by (cases s rule: rev_cases) (simp_all add: rstrip_def)

lemma url_join_pair: "url_join [base, seg] = rstrip ''/'' base @ ''/'' @ rstrip ''/'' seg"
  by (simp add: url_join_def)

text \<open>
  Claim C4 says that the join is invariant to a leading \<open>/\<close> on the segment as well as
  to a trailing \<open>/\<close> on the base. The lambda strips on the right only: joining
  \<open>https://x/y\<close> with \<open>/update\<close> gives \<open>https://x/y//update\<close>, which is not the URL
  that \<open>https://x/y/\<close> and \<open>update\<close> give.
\<close>

theorem url_join_leading_slash_counterexample:
  "url_join [''https://x/y'', ''/update''] = ''https://x/y//update''
   \<and> url_join [''https://x/y/'', ''update''] = ''https://x/y/update''
   \<and> url_join [''https://x/y'', ''/update''] \<noteq> url_join [''https://x/y/'', ''update'']"
  by (simp add: url_join_def rstrip_def)

text \<open>
  Claim C4, amended: for every base and segment, \<open>_url_join\<close> returns the base without
  its trailing \<open>/\<close> characters, one \<open>/\<close>, and the segment without its trailing \<open>/\<close>
  characters. The result is the same with or without a trailing \<open>/\<close> on the base (and
  on the segment), and the stripped base never ends in \<open>/\<close>. A leading \<open>/\<close> on the
  segment is kept: for a segment that neither starts nor ends with \<open>/\<close>, exactly one
  \<open>/\<close> separates it from the stripped base, and putting a \<open>/\<close> in front of it gives
  two.
\<close>

theorem url_join_trailing_slash:
  "url_join [base @ ''/'', seg] = url_join [base, seg]
   \<and> url_join [base, seg @ ''/''] = url_join [base, seg]
   \<and> url_join [base, seg] = rstrip ''/'' base @ ''/'' @ rstrip ''/'' seg
   \<and> (\<forall>p. rstrip ''/'' base \<noteq> p @ ''/'')
   \<and> (seg \<noteq> [] \<and> hd seg \<noteq> CHR ''/'' \<and> last seg \<noteq> CHR ''/'' \<longrightarrow>
        url_join [base, seg] = rstrip ''/'' base @ ''/'' @ seg
        \<and> url_join [base, ''/'' @ seg] = rstrip ''/'' base @ ''//'' @ seg)"
proof -
  have a: "rstrip ''/'' (base @ ''/'') = rstrip ''/'' base"
    and b: "rstrip ''/'' (seg @ ''/'') = rstrip ''/'' seg"
    by (simp_all add: rstrip_snoc_in)
  have c: "\<forall>p. rstrip ''/'' base \<noteq> p @ ''/''"
    using rstrip_no_trailing [of "''/''" base] by auto
  have d: "rstrip ''/'' seg = seg \<and> rstrip ''/'' (''/'' @ seg) = ''/'' @ seg"
    if "seg \<noteq> []" "last seg \<noteq> CHR ''/''"
    using that rstrip_keep [of seg "''/''"] rstrip_keep [of "''/'' @ seg" "''/''"] by simp
  show ?thesis
    using a b c d by (simp add: url_join_pair)
qed

theorem url_join_trailing_slash_witness:
  "url_join [''https://x/y/'', ''update''] = ''https://x/y/update''
   \<and> url_join [''https://x/y'', ''update''] = ''https://x/y/update''
   \<and> url_join [''https://x/y'', ''/update''] = ''https://x/y//update''"
  using url_join_trailing_slash [of "''https://x/y''" "''update''"]
  by (simp add: rstrip_def)

section \<open>Properties of the payload sanitiser\<close>





































text \<open>
  What the call does to the example store, object by object: the copy is at references 5
  to 9, the copies of the two excluded entries (6 and 7) are left unreferenced, and the
  first five objects are as they were.
\<close>

lemma example_store_result:
  "normalize_data_to_send 1000 0 example_store =
     Inr (5, example_store @
          [HDict [(''score'', HFloat 0.9), (''hyperparameters'', HRef 8)],
           HDict [(''layers'', HInt 2)],
           HList [HFloat 0.5],
           HDict [(''units'', HInt 64), (''tags'', HRef 9)],
           HList [HStr ''a'', HNone]])"
  by (simp add: normalize_data_to_send_def example_store_def numeral_eq_Suc Let_def
      dict_setitem_def list_append_def obj_setitem_def obj_append_def normalize_step_def
      dict_contains_def del_item_def dict_del_def)

section \<open>Properties of the transmitter\<close>

lemmas outcome_defs =
  DISABLE_def AUTH_ERROR_def CONNECT_ERROR_def UPLOAD_ERROR_def OK_def ERROR_def

lemma classify_status_cases:
  "classify_status j =
     (case subscript j ''status'' of
        Inl e \<Rightarrow> Raise e
      | Inr st \<Rightarrow> Return (PStr (if st = PStr ''Unauthorized'' then AUTH_ERROR else UPLOAD_ERROR)))"
  by (simp add: classify_status_def split: sum.split)

lemma failure_block_no_fallthrough: "failure_block response \<noteq> Fallthrough"
  by (simp add: failure_block_def classify_status_def split: sum.split)

lemma seq_stmt_dead: "s \<noteq> Fallthrough \<Longrightarrow> seq_stmt s k = s"
  by (cases s) (simp_all add: seq_stmt_def)

lemma classify_response_eq:
  "classify_response response =
     (if resp_ok response then Return (PStr OK) else failure_block response)"
  by (simp add: classify_response_def seq_stmt_dead failure_block_no_fallthrough)

lemma send_to_backend_returns:
  assumes "fst (send_to_backend post url key info_type info w) = Inr v"
  obtains response where "call_result (classify_response response) = Inr v"
  using assms
  by (auto simp: send_to_backend_def alloc_def Let_def split: sum.splits prod.splits)

lemma send_to_backend_always:
  "normalize_data_to_send (recursion_budget w) info (heap w) = Inr x \<Longrightarrow>
     fst (send_to_backend (always response) url key info_type info w) =
       call_result (classify_response response)"
  by (simp add: send_to_backend_def always_def alloc_def Let_def split: prod.split)

lemma send_to_backend_fresh_world:
  "fst (send_to_backend (always response) url key info_type 0 fresh_world) =
     call_result (classify_response response)"
  by (rule send_to_backend_always [where x = "(5, snd (projr (normalize_data_to_send 1000 0 example_store)))"])
    (simp add: fresh_world_def example_store_result)

lemma call_result_classify:
  "call_result (classify_response response) = Inr v \<Longrightarrow>
     v \<in> {PStr OK, PStr AUTH_ERROR, PStr CONNECT_ERROR, PStr UPLOAD_ERROR}"
  by (auto simp: classify_response_eq failure_block_def classify_status_def call_result_def
      split: if_splits sum.splits)

lemma send_to_backend_missing_status:
  "normalize_data_to_send (recursion_budget w) info (heap w) = Inr x \<Longrightarrow>
     \<not> resp_ok response \<Longrightarrow> resp_json response = Inr (PDict kvs) \<Longrightarrow> map_of kvs ''status'' = None \<Longrightarrow>
     fst (send_to_backend (always response) url key info_type info w) = Inl (KeyError ''status'')"
  by (simp add: send_to_backend_always classify_response_eq failure_block_def
      classify_status_def call_result_def)

lemma send_to_backend_classification:
  "normalize_data_to_send (recursion_budget w) info (heap w) = Inr x \<Longrightarrow>
   fst (send_to_backend (always response) url key info_type info w) =
     (if resp_ok response then Inr (PStr OK)
      else case resp_json response of
             Inl e \<Rightarrow> if e = JSONDecodeError then Inr (PStr CONNECT_ERROR) else Inl e
           | Inr (PDict kvs) \<Rightarrow>
               (case map_of kvs ''status'' of
                  None \<Rightarrow> Inl (KeyError ''status'')
                | Some st \<Rightarrow> if st = PStr ''Unauthorized'' then Inr (PStr AUTH_ERROR)
                             else Inr (PStr UPLOAD_ERROR))
           | Inr _ \<Rightarrow> Inl TypeError)"
  by (simp add: send_to_backend_always classify_response_eq failure_block_def
      classify_status_def call_result_def split: sum.split pyval.split option.split)

text \<open>
  Claim C1 says that \<open>send_to_backend\<close> returns an outcome for every response, with or
  without a \<open>status\<close> field. The code reads \<^verbatim>\<open>response_json['status']\<close> outside the
  \<^verbatim>\<open>try\<close>: for a failed request whose body is the JSON object \<open>{}\<close>, the call raises
  \<open>KeyError\<close> and returns nothing.
\<close>

theorem send_to_backend_empty_object_raises:
  "fst (send_to_backend (always resp_empty_object) ''https://x/api/v1/update'' (Some ''k'')
          ''results'' 0 fresh_world) = Inl (KeyError ''status'')"
  by (simp add: send_to_backend_fresh_world classify_response_eq failure_block_def
      classify_status_def call_result_def resp_empty_object_def)

text \<open>
  Claim C2 says that a failure with a parseable body and anything but
  \<open>status = Unauthorized\<close> is classified as \<open>UploadError\<close>. For a failed request whose
  body is a JSON object with a \<open>message\<close> field and no \<open>status\<close> field, the code raises
  \<open>KeyError\<close> where the claim says \<open>UploadError\<close>. (The other three classes, and
  \<open>UploadError\<close> for a body that has a \<open>status\<close> field, are as the claim says
  whenever the payload is sanitised without error: see
  \<open>send_to_backend_classification\<close>.)
\<close>

theorem send_to_backend_message_only_raises:
  "fst (send_to_backend (always resp_message_only) ''https://x/api/v1/update'' (Some ''k'')
          ''results'' 0 fresh_world) = Inl (KeyError ''status'')
   \<and> fst (send_to_backend (always resp_message_only) ''https://x/api/v1/update'' (Some ''k'')
          ''results'' 0 fresh_world) \<noteq> Inr (PStr UPLOAD_ERROR)"
  by (simp add: send_to_backend_fresh_world classify_response_eq failure_block_def
      classify_status_def call_result_def resp_message_only_def)

text \<open>
  Claim C10: whatever the transport does, a value returned by \<open>send_to_backend\<close> is one
  of \<open>OK\<close>, \<open>AUTH_ERROR\<close>, \<open>CONNECT_ERROR\<close> and \<open>UPLOAD_ERROR\<close>, and never \<open>ERROR\<close>.
  The statements before \<^verbatim>\<open>return ERROR\<close> never fall through, so that line is not
  reached; the five constants are pairwise different strings.
\<close>

theorem send_to_backend_four_outcomes:
  "(\<forall>v. fst (send_to_backend post url key info_type info w) = Inr v \<longrightarrow>
        v \<in> {PStr OK, PStr AUTH_ERROR, PStr CONNECT_ERROR, PStr UPLOAD_ERROR})
   \<and> fst (send_to_backend post url key info_type info w) \<noteq> Inr (PStr ERROR)
   \<and> failure_block response \<noteq> Fallthrough
   \<and> seq_stmt (failure_block response) (Return (PStr ERROR)) = failure_block response
   \<and> distinct [OK, AUTH_ERROR, CONNECT_ERROR, UPLOAD_ERROR, ERROR]"
proof -
  let ?r = "fst (send_to_backend post url key info_type info w)"
  have four: "v \<in> {PStr OK, PStr AUTH_ERROR, PStr CONNECT_ERROR, PStr UPLOAD_ERROR}"
    if "?r = Inr v" for v
    using that by (auto elim!: send_to_backend_returns dest: call_result_classify)
  have d: "distinct [OK, AUTH_ERROR, CONNECT_ERROR, UPLOAD_ERROR, ERROR]"
    by (simp add: outcome_defs)
  have "?r \<noteq> Inr (PStr ERROR)"
  proof
    assume "?r = Inr (PStr ERROR)"
    from four [OF this] show False
      by (simp add: outcome_defs)
  qed
  with four d show ?thesis
    by (simp add: seq_stmt_dead failure_block_no_fallthrough)
qed

theorem send_to_backend_four_outcomes_witness:
  "fst (send_to_backend (always resp_success) ''https://x/api/v1/update'' (Some ''k'')
          ''status'' 0 fresh_world) = Inr (PStr OK)
   \<and> fst (send_to_backend (always resp_html) ''https://x/api/v1/update'' (Some ''k'')
          ''status'' 0 fresh_world) = Inr (PStr CONNECT_ERROR)
   \<and> fst (send_to_backend (always resp_unauthorized) ''https://x/api/v1/update'' (Some ''k'')
          ''status'' 0 fresh_world) = Inr (PStr AUTH_ERROR)
   \<and> fst (send_to_backend (always resp_rejected) ''https://x/api/v1/update'' (Some ''k'')
          ''status'' 0 fresh_world) = Inr (PStr UPLOAD_ERROR)
   \<and> PStr OK \<in> {PStr OK, PStr AUTH_ERROR, PStr CONNECT_ERROR, PStr UPLOAD_ERROR}"
  using send_to_backend_four_outcomes [of "always resp_success" "''https://x/api/v1/update''"
      "Some ''k''" "''status''" 0 fresh_world resp_success]
  by (simp add: send_to_backend_fresh_world classify_response_eq failure_block_def
      classify_status_def call_result_def resp_success_def resp_html_def
      resp_unauthorized_def resp_rejected_def)

section \<open>Properties of the client\<close>

lemma check_access_test_key_true:
  "api_key (cloud w) = Some ''test_key_true'' \<Longrightarrow> check_access post w = (Inr True, w)"
  by (simp add: check_access_def)

lemma check_access_test_key_false:
  "api_key (cloud w) = Some ''test_key_false'' \<Longrightarrow> check_access post w = (Inr False, w)"
  by (simp add: check_access_def)

lemma enable_test_key_true:
  "enable post ''test_key_true'' url w =
     (Inr PNone,
      w\<lparr> cloud := (cloud w)
           \<lparr> api_key := Some ''test_key_true'',
             base_url := (case url of None \<Rightarrow> base_url (cloud w)
                          | Some u \<Rightarrow> if u \<noteq> [] then u else base_url (cloud w)),
             status := PStr OK,
             enabled := True \<rparr> \<rparr>)"
  by (simp add: enable_def check_access_test_key_true split: option.split)

lemma enable_test_key_false:
  "enable post ''test_key_false'' url w =
     (Inr PNone,
      w\<lparr> cloud := (cloud w)
           \<lparr> api_key := Some ''test_key_false'',
             base_url := (case url of None \<Rightarrow> base_url (cloud w)
                          | Some u \<Rightarrow> if u \<noteq> [] then u else base_url (cloud w)),
             status := PStr AUTH_ERROR,
             enabled := False \<rparr> \<rparr>)"
  by (simp add: enable_def check_access_test_key_false split: option.split)

text \<open>
  Claim C6: with the credential \<open>test_key_true\<close>, \<open>enable\<close> hands no request to the
  transport, returns normally, and leaves \<open>enabled = True\<close> and \<open>status = OK\<close>; with
  \<open>test_key_false\<close> it hands no request to the transport either and leaves
  \<open>enabled = False\<close> and \<open>status = AUTH_ERROR\<close>. In both cases the result is the same
  for every transport.
\<close>

theorem enable_reserved_credentials:
  "fst (enable post ''test_key_true'' url w) = Inr PNone
   \<and> net (snd (enable post ''test_key_true'' url w)) = net w
   \<and> enabled (cloud (snd (enable post ''test_key_true'' url w))) = True
   \<and> status (cloud (snd (enable post ''test_key_true'' url w))) = PStr OK
   \<and> enable post' ''test_key_true'' url w = enable post ''test_key_true'' url w
   \<and> fst (enable post ''test_key_false'' url w) = Inr PNone
   \<and> net (snd (enable post ''test_key_false'' url w)) = net w
   \<and> enabled (cloud (snd (enable post ''test_key_false'' url w))) = False
   \<and> status (cloud (snd (enable post ''test_key_false'' url w))) = PStr AUTH_ERROR
   \<and> enable post' ''test_key_false'' url w = enable post ''test_key_false'' url w"
  unfolding enable_test_key_true enable_test_key_false by simp

lemma enabled_world_eq:
  "enabled_world =
     \<lparr> cloud = init_CloudService\<lparr> api_key := Some ''test_key_true'', status := PStr OK, enabled := True \<rparr>,
       heap = example_store, net = [], recursion_budget = 1000 \<rparr>"
  by (simp add: enabled_world_def enable_test_key_true fresh_world_def)

text \<open>
  Claim C9: the dictionary returned by \<open>get_config\<close> has exactly the keys \<open>enabled\<close>,
  \<open>status\<close> and \<open>last_update\<close>, in this order, and holds under each the value of the
  client's field of that name, the number \<open>last_update\<close> with its Python type. It has no
  entry for the credential, and changing the stored credential (or the URL, the interval
  or the executor) does not change it. A newly built client gives \<open>False\<close>, the string
  \<open>disable\<close> and the integer -1.
\<close>

theorem get_config_fields:
  "map fst (get_config self) = [''enabled'', ''status'', ''last_update'']
   \<and> map_of (get_config self) ''enabled'' = Some (PBool (enabled self))
   \<and> map_of (get_config self) ''status'' = Some (status self)
   \<and> map_of (get_config self) ''last_update'' = Some (num_pyval (last_update self))
   \<and> map_of (get_config self) ''api_key'' = None
   \<and> get_config (self\<lparr> api_key := k \<rparr>) = get_config self
   \<and> get_config self =
       get_config \<lparr> enabled = enabled self, status = status self, base_url = b, api_key = k,
                    log_interval = l, last_update = last_update self, executor = e \<rparr>
   \<and> get_config init_CloudService =
       [(''enabled'', PBool False), (''status'', PStr ''disable''), (''last_update'', PInt (- 1))]
   \<and> get_config (cloud (snd (send_status 100 0 enabled_world))) =
       [(''enabled'', PBool True), (''status'', PStr ''ok''), (''last_update'', PFloat 100)]"
  by (simp add: get_config_def init_CloudService_def enabled_world_eq send_status_def
      send_nonblocking_def OK_def)

lemma send_nonblocking_disabled:
  "\<not> enabled (cloud w) \<Longrightarrow> send_nonblocking info_type info w = (PNone, w)"
  by (simp add: send_nonblocking_def)

lemma send_nonblocking_enabled:
  "enabled (cloud w) \<Longrightarrow>
     send_nonblocking info_type info w =
       (PNone, w\<lparr> cloud := (cloud w)\<lparr> executor := executor (cloud w) @
          [\<lparr> task_url = url_join [base_url (cloud w), ''v1/update''],
             task_api_key = api_key (cloud w),
             task_info_type = info_type, task_info = info \<rparr>] \<rparr> \<rparr>)"
  by (simp add: send_nonblocking_def Let_def)

text \<open>
  Claim C7 says that \<open>send_results\<close> on a disabled client returns a Disabled indicator.
  \<open>send_results\<close> has no \<^verbatim>\<open>return\<close> statement: on a newly built (disabled) client it
  returns \<^verbatim>\<open>None\<close>, which is neither the string \<open>disabled\<close> that \<open>_send_blocking\<close>
  returns nor the constant \<open>DISABLE\<close>, and is what it returns on an enabled client too.
\<close>

theorem send_results_returns_none_counterexample:
  "\<not> enabled (cloud fresh_world)
   \<and> fst (send_results 0 fresh_world) = PNone
   \<and> fst (send_results 0 fresh_world) \<noteq> PStr ''disabled''
   \<and> fst (send_results 0 fresh_world) \<noteq> PStr DISABLE
   \<and> enabled (cloud enabled_world)
   \<and> fst (send_results 0 enabled_world) = fst (send_results 0 fresh_world)"
  by (simp add: send_results_def send_nonblocking_def Let_def enabled_world_eq
      fresh_world_def init_CloudService_def split: prod.split)

text \<open>
  Claim C7, amended: on a client whose \<open>enabled\<close> flag is false, \<open>send_results\<close>
  submits nothing, leaves the whole state (the status among it) unchanged and returns
  \<^verbatim>\<open>None\<close>; on a client whose flag is true, every call submits exactly one call of
  \<open>send_to_backend\<close> with info type \<open>results\<close> to the executor, changes nothing else
  and returns \<^verbatim>\<open>None\<close>.
\<close>

theorem send_results_dispatch:
  "(\<not> enabled (cloud w) \<longrightarrow> send_results results w = (PNone, w))
   \<and> (enabled (cloud w) \<longrightarrow>
        send_results results w =
          (PNone, w\<lparr> cloud := (cloud w)\<lparr> executor := executor (cloud w) @
             [\<lparr> task_url = url_join [base_url (cloud w), ''v1/update''],
                task_api_key = api_key (cloud w),
                task_info_type = ''results'', task_info = results \<rparr>] \<rparr> \<rparr>))"
  by (simp add: send_results_def send_nonblocking_disabled send_nonblocking_enabled)

theorem send_results_dispatch_witness:
  "\<not> enabled (cloud fresh_world)
   \<and> send_results 0 fresh_world = (PNone, fresh_world)
   \<and> enabled (cloud enabled_world)
   \<and> executor (cloud (snd (send_results 0 enabled_world))) =
       [\<lparr> task_url = ''https://us-central1-kerastuner-prod.cloudfunctions.net/api/v1/update'',
          task_api_key = Some ''test_key_true'',
          task_info_type = ''results'', task_info = 0 \<rparr>]
   \<and> length (executor (cloud (snd (send_results 1 (snd (send_results 0 enabled_world)))))) = 2"
proof -
  have d: "\<not> enabled (cloud fresh_world)"
    by (simp add: fresh_world_def init_CloudService_def)
  have e: "enabled (cloud enabled_world)"
    by (simp add: enabled_world_eq)
  have u: "url_join [base_url (cloud enabled_world), ''v1/update''] =
             ''https://us-central1-kerastuner-prod.cloudfunctions.net/api/v1/update''"
    by (simp add: enabled_world_eq init_CloudService_def url_join_def rstrip_def)
  have one: "executor (cloud (snd (send_results 0 enabled_world))) =
       [\<lparr> task_url = ''https://us-central1-kerastuner-prod.cloudfunctions.net/api/v1/update'',
          task_api_key = Some ''test_key_true'',
          task_info_type = ''results'', task_info = 0 \<rparr>]"
    using send_results_dispatch [of enabled_world 0] e unfolding u
    by (simp add: enabled_world_eq init_CloudService_def)
  have e2: "enabled (cloud (snd (send_results 0 enabled_world)))"
    using send_results_dispatch [of enabled_world 0] e by simp
  have two: "length (executor (cloud (snd (send_results 1 (snd (send_results 0 enabled_world)))))) = 2"
    using send_results_dispatch [of "snd (send_results 0 enabled_world)" 1] e2 one by simp
  show ?thesis
    using d e one two send_results_dispatch [of fresh_world 0] by simp
qed

lemma send_status_skip:
  "\<not> ts - num_real (last_update (cloud w)) > log_interval (cloud w) \<Longrightarrow>
     send_status ts st w = (PNone, w)"
  by (simp add: send_status_def)

lemma send_status_pass_disabled:
  "\<not> enabled (cloud w) \<Longrightarrow> ts - num_real (last_update (cloud w)) > log_interval (cloud w) \<Longrightarrow>
     send_status ts st w = (PNone, w\<lparr> cloud := (cloud w)\<lparr> last_update := NFloat ts \<rparr> \<rparr>)"
  by (simp add: send_status_def send_nonblocking_disabled)

lemma send_status_pass_enabled:
  "enabled (cloud w) \<Longrightarrow> ts - num_real (last_update (cloud w)) > log_interval (cloud w) \<Longrightarrow>
     send_status ts st w =
       (PNone, w\<lparr> cloud := (cloud w)\<lparr> executor := executor (cloud w) @ [status_task w st],
                                     last_update := NFloat ts \<rparr> \<rparr>)"
  by (simp add: send_status_def send_nonblocking_enabled status_task_def)

lemma send_status_disabled_frame:
  "\<not> enabled (cloud w) \<Longrightarrow>
     fst (send_status ts st w) = PNone
     \<and> (snd (send_status ts st w))
          \<lparr> cloud := (cloud (snd (send_status ts st w)))\<lparr> last_update := last_update (cloud w) \<rparr> \<rparr> = w"
  by (simp add: send_status_def send_nonblocking_disabled)

text \<open>
  Claim C8: \<open>send_status\<close> on a client whose \<open>enabled\<close> flag is false is to leave every
  field unchanged, \<open>last_update\<close> included. The code submits nothing and hands nothing to
  the transport (\<open>send_status_disabled_frame\<close>), but the assignment
  \<^verbatim>\<open>self.last_update = ts\<close> is not under the \<open>enabled\<close> test: on a newly built client a
  call at time 100 moves \<open>last_update\<close> from -1 to 100, and the first status after
  \<^verbatim>\<open>enable\<close>, one second later, is dropped by the debounce test, where without the
  disabled call it is dispatched.
\<close>

theorem send_status_disabled_moves_last_update:
  "\<not> enabled (cloud fresh_world)
   \<and> last_update (cloud fresh_world) = NInt (- 1)
   \<and> last_update (cloud (snd (send_status 100 0 fresh_world))) = NFloat 100
   \<and> snd (send_status 100 0 fresh_world) \<noteq> fresh_world
   \<and> executor (cloud (snd (send_status 101 0
        (snd (enable unreachable ''test_key_true'' None (snd (send_status 100 0 fresh_world))))))) = []
   \<and> executor (cloud (snd (send_status 101 0
        (snd (enable unreachable ''test_key_true'' None fresh_world))))) = [status_task enabled_world 0]"
proof -
  have d: "\<not> enabled (cloud fresh_world)"
    and l: "last_update (cloud fresh_world) = NInt (- 1)"
    and i: "log_interval (cloud fresh_world) = 5"
    by (simp_all add: fresh_world_def init_CloudService_def)
  have s: "send_status 100 0 fresh_world =
          (PNone, fresh_world\<lparr> cloud := (cloud fresh_world)\<lparr> last_update := NFloat 100 \<rparr> \<rparr>)"
    by (rule send_status_pass_disabled) (simp_all add: d l i)
  then have n: "last_update (cloud (snd (send_status 100 0 fresh_world))) = NFloat 100"
    by simp
  then have ne: "snd (send_status 100 0 fresh_world) \<noteq> fresh_world"
    using l by auto
  have dropped: "executor (cloud (snd (send_status 101 0
        (snd (enable unreachable ''test_key_true'' None (snd (send_status 100 0 fresh_world))))))) = []"
    unfolding s snd_conv enable_test_key_true
    by (simp add: send_status_def fresh_world_def init_CloudService_def)
  have sent: "executor (cloud (snd (send_status 101 0
        (snd (enable unreachable ''test_key_true'' None fresh_world))))) = [status_task enabled_world 0]"
    unfolding enabled_world_def [symmetric]
    by (subst send_status_pass_enabled) (simp_all add: enabled_world_eq init_CloudService_def)
  from d l n ne dropped sent show ?thesis by simp
qed

text \<open>
  Claim C3 says that for every starting time two calls less than the interval apart
  dispatch exactly one send, and two calls more than the interval apart dispatch exactly
  two. A client starts with \<open>last_update = -1\<close> and \<open>log_interval = 5\<close>, and the first
  call is debounced like any other: on an enabled client, calls at times 0 and 3 dispatch
  nothing, and calls at times 0 and 10 dispatch one send. On a disabled client no call
  dispatches anything.
\<close>

theorem send_status_first_call_counterexample:
  "enabled (cloud enabled_world)
   \<and> executor (cloud enabled_world) = []
   \<and> (3::real) - 0 < log_interval (cloud enabled_world)
   \<and> executor (cloud (snd (send_status 3 0 (snd (send_status 0 0 enabled_world))))) = []
   \<and> (10::real) - 0 > log_interval (cloud enabled_world)
   \<and> length (executor (cloud (snd (send_status 10 0 (snd (send_status 0 0 enabled_world)))))) = 1
   \<and> (200::real) - 100 > log_interval (cloud fresh_world)
   \<and> executor (cloud (snd (send_status 200 0 (snd (send_status 100 0 fresh_world))))) = []"
proof -
  have first: "send_status 0 0 enabled_world = (PNone, enabled_world)"
    by (rule send_status_skip) (simp add: enabled_world_eq init_CloudService_def)
  have second: "send_status 3 0 enabled_world = (PNone, enabled_world)"
    by (rule send_status_skip) (simp add: enabled_world_eq init_CloudService_def)
  have third: "executor (cloud (snd (send_status 10 0 enabled_world))) = [status_task enabled_world 0]"
    by (subst send_status_pass_enabled) (simp_all add: enabled_world_eq init_CloudService_def)
  have fresh: "executor (cloud (snd (send_status 200 0 (snd (send_status 100 0 fresh_world))))) = []"
    by (simp add: send_status_def send_nonblocking_def fresh_world_def init_CloudService_def)
  show ?thesis
    unfolding first second snd_conv third fresh
    by (simp add: enabled_world_eq fresh_world_def init_CloudService_def)
qed

text \<open>
  Claim C3, amended: on an enabled client, for a first call that itself passes the test
  \<open>ts1 - last_update > log_interval\<close> (on a newly built client: \<open>ts1 > 4\<close>), the first
  call submits one send and sets \<open>last_update\<close> to \<open>ts1\<close> while that send is still in
  the executor's queue; a second call at most the interval later changes nothing (one send
  in all), and a second call more than the interval later submits a second send (two in
  all) and sets \<open>last_update\<close> to \<open>ts2\<close>.
\<close>

theorem send_status_debounce:
  assumes "enabled (cloud w)"
    and "ts1 - num_real (last_update (cloud w)) > log_interval (cloud w)"
  shows "executor (cloud (snd (send_status ts1 st1 w))) = executor (cloud w) @ [status_task w st1]
    \<and> last_update (cloud (snd (send_status ts1 st1 w))) = NFloat ts1
    \<and> (ts2 - ts1 \<le> log_interval (cloud w) \<longrightarrow>
         snd (send_status ts2 st2 (snd (send_status ts1 st1 w))) = snd (send_status ts1 st1 w))
    \<and> (ts2 - ts1 > log_interval (cloud w) \<longrightarrow>
         executor (cloud (snd (send_status ts2 st2 (snd (send_status ts1 st1 w))))) =
           executor (cloud w) @ [status_task w st1, status_task w st2]
         \<and> last_update (cloud (snd (send_status ts2 st2 (snd (send_status ts1 st1 w))))) = NFloat ts2)"
proof -
  let ?w1 = "w\<lparr> cloud := (cloud w)\<lparr> executor := executor (cloud w) @ [status_task w st1],
                                    last_update := NFloat ts1 \<rparr> \<rparr>"
  have 1: "snd (send_status ts1 st1 w) = ?w1"
    using assms by (simp add: send_status_pass_enabled)
  have same: "status_task ?w1 st2 = status_task w st2"
    by (simp add: status_task_def)
  have skip: "snd (send_status ts2 st2 ?w1) = ?w1" if "ts2 - ts1 \<le> log_interval (cloud w)"
    using that by (simp add: send_status_skip)
  have pass: "snd (send_status ts2 st2 ?w1) =
      ?w1\<lparr> cloud := (cloud ?w1)\<lparr> executor := executor (cloud ?w1) @ [status_task w st2],
                                  last_update := NFloat ts2 \<rparr> \<rparr>"
    if "ts2 - ts1 > log_interval (cloud w)"
    using that assms(1) same by (subst send_status_pass_enabled) simp_all
  show ?thesis
    unfolding 1 using skip pass by simp
qed

theorem send_status_debounce_witness:
  "enabled (cloud enabled_world)
   \<and> (100::real) - num_real (last_update (cloud enabled_world)) > log_interval (cloud enabled_world)
   \<and> length (executor (cloud (snd (send_status 103 0 (snd (send_status 100 0 enabled_world)))))) = 1
   \<and> last_update (cloud (snd (send_status 103 0 (snd (send_status 100 0 enabled_world))))) = NFloat 100
   \<and> length (executor (cloud (snd (send_status 110 0 (snd (send_status 100 0 enabled_world)))))) = 2
   \<and> last_update (cloud (snd (send_status 110 0 (snd (send_status 100 0 enabled_world))))) = NFloat 110"
proof -
  have e: "enabled (cloud enabled_world)"
    and p: "(100::real) - num_real (last_update (cloud enabled_world)) > log_interval (cloud enabled_world)"
    and i: "log_interval (cloud enabled_world) = 5"
    and x: "executor (cloud enabled_world) = []"
    by (simp_all add: enabled_world_eq init_CloudService_def)
  show ?thesis
    using send_status_debounce [OF e p, of 0 103 0] send_status_debounce [OF e p, of 0 110 0] e p
    by (simp add: i x)
qed

end
